theory Spec2Isabelle
  imports Complex_Main
begin

text \<open>
  A shallow embedding of the two serverless functions of the climate-risk application:
  \<open>ingest-satellite-data\<close>, which generates a 7 by 7 grid of simulated satellite
  readings per location and inserts it into the table \<open>satellite_data\<close>, and
  \<open>satellite-webhook\<close>, which decodes a Pub/Sub envelope and calls the ingestion
  function. The definitions follow the TypeScript source; the theorems settle the claims
  C1 to C10 of the specification.
\<close>

section \<open>Numbers, random draws and the clock\<close>

text \<open>
  The program is TypeScript. A JavaScript number is modelled as a real: every sum,
  product and quotient below is the exact one, and the rounding of IEEE-754 doubles is
  outside this development.

  \<open>Math.random()\<close> and \<open>new Date().toISOString()\<close> read hidden state. The
  values they return are given by two oracles, \<open>rnd\<close> (the \<open>n\<close>-th draw, in
  \<open>[0, 1)\<close>) and \<open>clock\<close> (the \<open>n\<close>-th reading of the date), and the number of
  reads so far is passed along explicitly.
\<close>

definition Math_round :: "real \<Rightarrow> real" where
  "Math_round x = of_int \<lfloor>x + 1 / 2\<rfloor>"

definition Math_min :: "real \<Rightarrow> real \<Rightarrow> real" where
  "Math_min a b = (if a \<le> b then a else b)"

definition Math_max :: "real \<Rightarrow> real \<Rightarrow> real" where
  "Math_max a b = (if a \<le> b then b else a)"

definition unit_draws :: "(nat \<Rightarrow> real) \<Rightarrow> bool" where
  "unit_draws rnd = (\<forall>n. 0 \<le> rnd n \<and> rnd n < 1)"

section \<open>The satellite data point and the grid generator\<close>

record risk_indicators_t =
  flood_risk :: real
  drought_risk :: real
  wildfire_risk :: real
  storm_risk :: real

record SatelliteDataPoint =
  latitude :: real
  longitude :: real
  acquisition_time :: string
  cloud_coverage :: real
  vegetation_index :: real
  water_index :: real
  temperature :: real
  risk_indicators :: risk_indicators_t
  source :: string

definition gridSize :: nat where
  "gridSize = 7"

definition radius :: real where
  "radius = 0.045"

definition step :: real where
  "step = (radius * 2) / (real gridSize - 1)"

text \<open>
  The four draws of one grid point, as the local constants of the loop body hold them
  (before the two-decimal rounding of the stored fields), and the fifth draw that enters
  the storm indicator. \<open>k\<close> is the number of draws made before this point.
\<close>

definition cloudCoverage :: "(nat \<Rightarrow> real) \<Rightarrow> nat \<Rightarrow> real" where
  "cloudCoverage rnd k = rnd k * 30"

definition vegetationIndex :: "(nat \<Rightarrow> real) \<Rightarrow> nat \<Rightarrow> real" where
  "vegetationIndex rnd k = 0.2 + rnd (k + 1) * 0.6"

definition waterIndex :: "(nat \<Rightarrow> real) \<Rightarrow> nat \<Rightarrow> real" where
  "waterIndex rnd k = - 0.3 + rnd (k + 2) * 0.5"

definition temperature_draw :: "(nat \<Rightarrow> real) \<Rightarrow> nat \<Rightarrow> real" where
  "temperature_draw rnd k = 15 + rnd (k + 3) * 15"

definition storm_draw :: "(nat \<Rightarrow> real) \<Rightarrow> nat \<Rightarrow> real" where
  "storm_draw rnd k = rnd (k + 4) * 30"

definition floodRisk :: "(nat \<Rightarrow> real) \<Rightarrow> nat \<Rightarrow> real" where
  "floodRisk rnd k =
     Math_min 100 (Math_max 0 ((waterIndex rnd k + 0.3) * 100 + (100 - cloudCoverage rnd k) * 0.3))"

definition droughtRisk :: "(nat \<Rightarrow> real) \<Rightarrow> nat \<Rightarrow> real" where
  "droughtRisk rnd k = Math_min 100 (Math_max 0 ((1 - vegetationIndex rnd k) * 100))"

definition wildfireRisk :: "(nat \<Rightarrow> real) \<Rightarrow> nat \<Rightarrow> real" where
  "wildfireRisk rnd k =
     Math_min 100 (Math_max 0 (temperature_draw rnd k * 2 + (1 - vegetationIndex rnd k) * 50))"

definition stormRisk :: "(nat \<Rightarrow> real) \<Rightarrow> nat \<Rightarrow> real" where
  "stormRisk rnd k = Math_min 100 (Math_max 0 (cloudCoverage rnd k * 2 + storm_draw rnd k))"

text \<open>
  The body of the inner loop: the point pushed for lattice indices \<open>i\<close>, \<open>j\<close> when
  \<open>k\<close> draws and \<open>t\<close> readings of the date were made before it.
\<close>

definition grid_point ::
  "(nat \<Rightarrow> real) \<Rightarrow> (nat \<Rightarrow> string) \<Rightarrow> real \<Rightarrow> real \<Rightarrow> nat \<Rightarrow> nat \<Rightarrow> nat \<Rightarrow> nat \<Rightarrow> SatelliteDataPoint"
where
  "grid_point rnd clock lat lng i j k t =
     \<lparr> latitude = lat - radius + (real i * step),
       longitude = lng - radius + (real j * step),
       acquisition_time = clock t,
       cloud_coverage = Math_round (cloudCoverage rnd k * 100) / 100,
       vegetation_index = Math_round (vegetationIndex rnd k * 100) / 100,
       water_index = Math_round (waterIndex rnd k * 100) / 100,
       temperature = Math_round (temperature_draw rnd k * 100) / 100,
       risk_indicators =
         \<lparr> flood_risk = Math_round (floodRisk rnd k),
           drought_risk = Math_round (droughtRisk rnd k),
           wildfire_risk = Math_round (wildfireRisk rnd k),
           storm_risk = Math_round (stormRisk rnd k) \<rparr>,
       source = ''copernicus-simulated'' \<rparr>"

text \<open>
  The generator state: the points pushed so far, the number of draws and the number of
  date readings. The two \<open>for\<close> loops count \<open>i\<close> and \<open>j\<close> from \<open>0\<close> while they
  are below \<open>gridSize\<close>.
\<close>

type_synonym gen_state = "SatelliteDataPoint list \<times> nat \<times> nat"

function inner_loop ::
  "(nat \<Rightarrow> real) \<Rightarrow> (nat \<Rightarrow> string) \<Rightarrow> real \<Rightarrow> real \<Rightarrow> nat \<Rightarrow> nat \<Rightarrow> gen_state \<Rightarrow> gen_state"
where
  "inner_loop rnd clock lat lng i j (dataPoints, k, t) =
     (if j < gridSize
      then inner_loop rnd clock lat lng i (j + 1)
             (dataPoints @ [grid_point rnd clock lat lng i j k t], k + 5, t + 1)
      else (dataPoints, k, t))"
  by pat_completeness auto
termination
  by (relation "measure (\<lambda>(rnd, clock, lat, lng, i, j, s). gridSize - j)") auto

function outer_loop ::
  "(nat \<Rightarrow> real) \<Rightarrow> (nat \<Rightarrow> string) \<Rightarrow> real \<Rightarrow> real \<Rightarrow> nat \<Rightarrow> gen_state \<Rightarrow> gen_state"
where
  "outer_loop rnd clock lat lng i s =
     (if i < gridSize
      then outer_loop rnd clock lat lng (i + 1) (inner_loop rnd clock lat lng i 0 s)
      else s)"
  by pat_completeness auto
termination
  by (relation "measure (\<lambda>(rnd, clock, lat, lng, i, s). gridSize - i)") auto

definition getCopernicusToken :: string where
  "getCopernicusToken = ''demo-mode''"

definition fetchSatelliteData ::
  "(nat \<Rightarrow> real) \<Rightarrow> (nat \<Rightarrow> string) \<Rightarrow> real \<Rightarrow> real \<Rightarrow> string \<Rightarrow> nat \<Rightarrow> nat \<Rightarrow> gen_state"
where
  "fetchSatelliteData rnd clock lat lng token k t = outer_loop rnd clock lat lng 0 ([], k, t)"

section \<open>JavaScript values, thrown values and HTTP messages\<close>

text \<open>
  A value that came out of \<open>JSON.parse\<close> is a \<open>json\<close>; a JavaScript variable holds a
  \<open>json option\<close>, where \<open>None\<close> is \<open>undefined\<close>. An object keeps its properties in
  the order of the text; \<open>JSON.parse\<close> yields distinct keys.
\<close>

datatype json =
    JNull
  | JBool bool
  | JNum real
  | JStr string
  | JArr "json list"
  | JObj "(string \<times> json) list"

type_synonym jsval = "json option"

text \<open>
  What a \<open>catch\<close> clause receives: an \<open>Error\<close> with its message, or any other thrown
  value. Both handlers read it with
  \<open>error instanceof Error ? error.message : 'Unknown error occurred'\<close>.
\<close>

datatype thrown = ErrorObj string | NonError

definition errorMessage :: "thrown \<Rightarrow> string" where
  "errorMessage e = (case e of ErrorObj m \<Rightarrow> m | NonError \<Rightarrow> ''Unknown error occurred'')"

fun truthy :: "jsval \<Rightarrow> bool" where
  "truthy None = False"
| "truthy (Some JNull) = False"
| "truthy (Some (JBool b)) = b"
| "truthy (Some (JNum x)) = (x \<noteq> 0)"
| "truthy (Some (JStr s)) = (s \<noteq> [])"
| "truthy (Some (JArr xs)) = True"
| "truthy (Some (JObj kvs)) = True"

text \<open>
  \<open>v.k\<close> throws a \<open>TypeError\<close> on \<open>null\<close> and \<open>undefined\<close>, reads the property
  of an object, and is \<open>undefined\<close> on every other value for the keys the handlers use
  (none of them is a built-in property of a string, a number, a boolean or an array).
  \<open>v?.k\<close> is \<open>undefined\<close> where \<open>v.k\<close> throws. The message of the
  \<open>TypeError\<close> is the engine's; the text below stands for it.
\<close>

definition get_prop :: "jsval \<Rightarrow> string \<Rightarrow> thrown + jsval" where
  "get_prop v k =
     (case v of
        None \<Rightarrow> Inl (ErrorObj (''Cannot read properties of undefined (reading '' @ k @ '')''))
      | Some JNull \<Rightarrow> Inl (ErrorObj (''Cannot read properties of null (reading '' @ k @ '')''))
      | Some (JObj kvs) \<Rightarrow> Inr (map_of kvs k)
      | Some _ \<Rightarrow> Inr None)"

definition opt_prop :: "jsval \<Rightarrow> string \<Rightarrow> jsval" where
  "opt_prop v k = (case get_prop v k of Inl e \<Rightarrow> None | Inr x \<Rightarrow> x)"

text \<open>
  \<open>JSON.stringify\<close> of an object literal whose property values are \<open>undefined\<close> or
  JSON values: a property that is \<open>undefined\<close> is left out. A message body is kept as
  the JSON value its text denotes.
\<close>

definition JSON_stringify :: "(string \<times> jsval) list \<Rightarrow> json" where
  "JSON_stringify props = JObj (List.map_filter (\<lambda>(k, v). map_option (Pair k) v) props)"

text \<open>A template literal prints \<open>undefined\<close> for a variable that is not set.\<close>

definition template :: "string option \<Rightarrow> string" where
  "template v = (case v of None \<Rightarrow> ''undefined'' | Some s \<Rightarrow> s)"

record 'b request =
  req_method :: string
  req_json :: "thrown + 'b"

record response =
  status :: nat
  headers :: "(string \<times> string) list"
  body :: "json option"

definition corsHeaders :: "(string \<times> string) list" where
  "corsHeaders =
     [(''Access-Control-Allow-Origin'', ''*''),
      (''Access-Control-Allow-Headers'', ''authorization, x-client-info, apikey, content-type'')]"

definition json_headers :: "(string \<times> string) list" where
  "json_headers = corsHeaders @ [(''Content-Type'', ''application/json'')]"

text \<open>\<open>new Response(null, { headers: corsHeaders })\<close>: the status defaults to 200.\<close>

definition preflight_response :: response where
  "preflight_response = \<lparr> status = 200, headers = corsHeaders, body = None \<rparr>"

section \<open>The ingestion function\<close>

text \<open>
  The request body after \<open>await req.json()\<close> and the destructuring
  \<open>{ trigger, source, latitude, longitude, locations }\<close>, for bodies of the documented
  shape: coordinates are numbers (\<open>fetchSatelliteData(lat: number, lng: number, ...)\<close>),
  \<open>locations\<close> is an array of \<open>{ lat, lng }\<close>. \<open>None\<close> is a field that is absent or
  \<open>null\<close>. A body that cannot be parsed or destructured is the \<open>Inl\<close> of
  \<open>req_json\<close>.
\<close>

record location =
  lat :: real
  lng :: real

record ingest_body =
  body_trigger :: jsval
  body_source :: jsval
  body_latitude :: "real option"
  body_longitude :: "real option"
  body_locations :: "location list option"

definition defaultLocations :: "location list" where
  "defaultLocations =
     [\<lparr> lat = 40.7128, lng = - 74.0060 \<rparr>,
      \<lparr> lat = 34.0522, lng = - 118.2437 \<rparr>,
      \<lparr> lat = 29.7604, lng = - 95.3698 \<rparr>,
      \<lparr> lat = 25.7617, lng = - 80.1918 \<rparr>,
      \<lparr> lat = 37.7749, lng = - 122.4194 \<rparr>]"

text \<open>
  \<open>locations || (latitude && longitude ? [{ lat: latitude, lng: longitude }] : defaultLocations)\<close>.
  An array is truthy, also the empty one; a number is truthy unless it is \<open>0\<close>; a field
  that is absent or \<open>null\<close> is falsy.
\<close>

definition truthy_num :: "real option \<Rightarrow> bool" where
  "truthy_num v = truthy (map_option JNum v)"

definition locationsToProcess :: "ingest_body \<Rightarrow> location list" where
  "locationsToProcess b =
     (case body_locations b of
        Some locations \<Rightarrow> locations
      | None \<Rightarrow>
          (case (body_latitude b, body_longitude b) of
             (Some la, Some lo) \<Rightarrow>
               if truthy_num (Some la) \<and> truthy_num (Some lo)
               then [\<lparr> lat = la, lng = lo \<rparr>] else defaultLocations
           | _ \<Rightarrow> defaultLocations))"

text \<open>
  The database client is outside the program: \<open>db_insert\<close> is what
  \<open>supabase.from('satellite_data').insert(rows)\<close> does to a database of type \<open>'db\<close>,
  returning the \<open>error\<close> of its result (\<open>None\<close> when the insert succeeded).
  \<open>createClient\<close> may throw on the credentials it is given. Of the console output the
  two lines of the insert branch are kept: one per location, in the order processed.
\<close>

datatype db_error = DbError string

datatype console_line =
    InsertFailed location db_error
  | Inserted nat location

record 'db platform =
  Math_random :: "nat \<Rightarrow> real"
  Date_toISOString :: "nat \<Rightarrow> string"
  env :: "string \<Rightarrow> string option"
  createClient :: "string option \<Rightarrow> string option \<Rightarrow> thrown option"
  db_insert :: "'db \<Rightarrow> SatelliteDataPoint list \<Rightarrow> db_error option \<times> 'db"

record 'db world =
  draws :: nat
  ticks :: nat
  db :: 'db
  console :: "console_line list"

fun process_locations ::
  "'db platform \<Rightarrow> string \<Rightarrow> location list \<Rightarrow> nat \<times> 'db world \<Rightarrow> nat \<times> 'db world"
where
  "process_locations pf token [] s = s"
| "process_locations pf token (location # rest) (totalInserted, w) =
     (let (satelliteData, k, t) =
            fetchSatelliteData (Math_random pf) (Date_toISOString pf) (lat location) (lng location) token
              (draws w) (ticks w);
          (error, db') = db_insert pf (db w) satelliteData;
          w' = w\<lparr> draws := k, ticks := t, db := db' \<rparr>
      in case error of
           Some e \<Rightarrow>
             process_locations pf token rest
               (totalInserted, w'\<lparr> console := console w' @ [InsertFailed location e] \<rparr>)
         | None \<Rightarrow>
             process_locations pf token rest
               (totalInserted + length satelliteData,
                w'\<lparr> console := console w' @ [Inserted (length satelliteData) location] \<rparr>))"

text \<open>
  The \<open>try\<close> block of the handler: \<open>Inl\<close> is the value thrown to the \<open>catch\<close>
  clause.
\<close>

definition ingest_try ::
  "'db platform \<Rightarrow> ingest_body request \<Rightarrow> 'db world \<Rightarrow> (thrown + response) \<times> 'db world"
where
  "ingest_try pf req w =
     (case req_json req of
        Inl e \<Rightarrow> (Inl e, w)
      | Inr b \<Rightarrow>
          (case createClient pf (env pf ''SUPABASE_URL'') (env pf ''SUPABASE_SERVICE_ROLE_KEY'') of
             Some e \<Rightarrow> (Inl e, w)
           | None \<Rightarrow>
               (let token = getCopernicusToken;
                    (totalInserted, w') =
                      process_locations pf token (locationsToProcess b) (0, w)
                in (Inr \<lparr> status = 200, headers = json_headers,
                          body = Some (JSON_stringify
                            [(''success'', Some (JBool True)),
                             (''message'', Some (JStr ''Satellite data ingestion complete'')),
                             (''trigger'', body_trigger b),
                             (''source'', body_source b),
                             (''locationsProcessed'',
                                Some (JNum (real (length (locationsToProcess b))))),
                             (''dataPointsInserted'', Some (JNum (real totalInserted))),
                             (''timestamp'', Some (JStr (Date_toISOString pf (ticks w'))))]) \<rparr>,
                    w'\<lparr> ticks := ticks w' + 1 \<rparr>))))"

definition ingest_handler ::
  "'db platform \<Rightarrow> ingest_body request \<Rightarrow> 'db world \<Rightarrow> response \<times> 'db world"
where
  "ingest_handler pf req w =
     (if req_method req = ''OPTIONS'' then (preflight_response, w)
      else
        (case ingest_try pf req w of
           (Inr r, w') \<Rightarrow> (r, w')
         | (Inl error, w') \<Rightarrow>
             (\<lparr> status = 500, headers = json_headers,
                 body = Some (JSON_stringify
                   [(''success'', Some (JBool False)),
                    (''error'', Some (JStr (errorMessage error))),
                    (''timestamp'', Some (JStr (Date_toISOString pf (ticks w'))))]) \<rparr>,
              w'\<lparr> ticks := ticks w' + 1 \<rparr>)))"

section \<open>The webhook\<close>

text \<open>
  What the webhook calls and does not define: \<open>atob\<close> (applied to whatever
  \<open>message.data\<close> holds), \<open>JSON.parse\<close>, \<open>Deno.env.get\<close>, \<open>createClient\<close>,
  \<open>fetch\<close> and the date. A \<open>fetch\<close> that returns gives a response whose
  \<open>json()\<close> either throws or yields a JSON value. The handler returns its response
  together with the requests it sent with \<open>fetch\<close>.
\<close>

record fetch_request =
  fetch_url :: string
  fetch_method :: string
  fetch_headers :: "(string \<times> string) list"
  fetch_body :: json

record fetch_response =
  resp_status :: nat
  resp_json :: "thrown + json"

record webhook_platform =
  atob :: "jsval \<Rightarrow> thrown + string"
  JSON_parse :: "string \<Rightarrow> thrown + json"
  wh_env :: "string \<Rightarrow> string option"
  wh_createClient :: "string option \<Rightarrow> string option \<Rightarrow> thrown option"
  fetch :: "fetch_request \<Rightarrow> thrown + fetch_response"
  wh_date :: string

text \<open>
  \<open>const { eventType, satellite, location, acquisitionTime, severity } = messageData\<close>
  throws on \<open>null\<close>; on any other value a missing property is \<open>undefined\<close>.
\<close>

record satellite_event =
  eventType :: jsval
  satellite :: jsval
  event_location :: jsval
  acquisitionTime :: jsval
  severity :: jsval

definition destructure_event :: "json \<Rightarrow> thrown + satellite_event" where
  "destructure_event messageData =
     (case messageData of
        JNull \<Rightarrow> Inl (ErrorObj ''Cannot destructure property of null'')
      | _ \<Rightarrow>
          Inr \<lparr> eventType = opt_prop (Some messageData) ''eventType'',
                satellite = opt_prop (Some messageData) ''satellite'',
                event_location = opt_prop (Some messageData) ''location'',
                acquisitionTime = opt_prop (Some messageData) ''acquisitionTime'',
                severity = opt_prop (Some messageData) ''severity'' \<rparr>)"

text \<open>The request sent to the ingestion function for a decoded event.\<close>

definition ingest_request :: "webhook_platform \<Rightarrow> satellite_event \<Rightarrow> fetch_request" where
  "ingest_request pf ev =
     \<lparr> fetch_url = template (wh_env pf ''SUPABASE_URL'') @ ''/functions/v1/ingest-satellite-data'',
       fetch_method = ''POST'',
       fetch_headers =
         [(''Authorization'', ''Bearer '' @ template (wh_env pf ''SUPABASE_SERVICE_ROLE_KEY'')),
          (''Content-Type'', ''application/json'')],
       fetch_body = JSON_stringify
         [(''trigger'', Some (JStr ''pubsub'')),
          (''source'', Some (JStr ''google-cloud'')),
          (''latitude'', opt_prop (event_location ev) ''latitude''),
          (''longitude'', opt_prop (event_location ev) ''longitude''),
          (''eventType'', eventType ev),
          (''satellite'', satellite ev),
          (''severity'', severity ev)] \<rparr>"

text \<open>
  The \<open>try\<close> block. Once \<open>message\<close> is truthy, reading one of its properties
  cannot throw, so \<open>message.data\<close> and \<open>message.messageId\<close> are read with
  \<open>opt_prop\<close>.
\<close>

definition webhook_try ::
  "webhook_platform \<Rightarrow> json request \<Rightarrow> (thrown + response) \<times> fetch_request list"
where
  "webhook_try pf req =
     (case req_json req of
        Inl e \<Rightarrow> (Inl e, [])
      | Inr pubsubMessage \<Rightarrow>
     (case get_prop (Some pubsubMessage) ''message'' of
        Inl e \<Rightarrow> (Inl e, [])
      | Inr message \<Rightarrow>
     if \<not> truthy message then (Inl (ErrorObj ''Invalid Pub/Sub message format''), [])
     else
     (case atob pf (opt_prop message ''data'') of
        Inl e \<Rightarrow> (Inl e, [])
      | Inr decodedData \<Rightarrow>
     (case JSON_parse pf decodedData of
        Inl e \<Rightarrow> (Inl e, [])
      | Inr messageData \<Rightarrow>
     (case destructure_event messageData of
        Inl e \<Rightarrow> (Inl e, [])
      | Inr ev \<Rightarrow>
     (case wh_createClient pf (wh_env pf ''SUPABASE_URL'') (wh_env pf ''SUPABASE_SERVICE_ROLE_KEY'') of
        Some e \<Rightarrow> (Inl e, [])
      | None \<Rightarrow>
     (case fetch pf (ingest_request pf ev) of
        Inl e \<Rightarrow> (Inl e, [ingest_request pf ev])
      | Inr ingestResponse \<Rightarrow>
     (case resp_json ingestResponse of
        Inl e \<Rightarrow> (Inl e, [ingest_request pf ev])
      | Inr ingestResult \<Rightarrow>
     (case get_prop (Some ingestResult) ''dataPointsInserted'' of
        Inl e \<Rightarrow> (Inl e, [ingest_request pf ev])
      | Inr dataPointsInserted \<Rightarrow>
          (Inr \<lparr> status = 200, headers = json_headers,
                 body = Some (JSON_stringify
                   [(''success'', Some (JBool True)),
                    (''message'', Some (JStr ''Satellite event processed successfully'')),
                    (''messageId'', opt_prop message ''messageId''),
                    (''eventType'', eventType ev),
                    (''dataPointsProcessed'', dataPointsInserted)]) \<rparr>,
           [ingest_request pf ev]))))))))))"

definition webhook_handler ::
  "webhook_platform \<Rightarrow> json request \<Rightarrow> response \<times> fetch_request list"
where
  "webhook_handler pf req =
     (if req_method req = ''OPTIONS'' then (preflight_response, [])
      else
        (case webhook_try pf req of
           (Inr r, calls) \<Rightarrow> (r, calls)
         | (Inl error, calls) \<Rightarrow>
             (\<lparr> status = 200, headers = json_headers,
                 body = Some (JSON_stringify
                   [(''success'', Some (JBool False)),
                    (''error'', Some (JStr (errorMessage error))),
                    (''timestamp'', Some (JStr (wh_date pf)))]) \<rparr>,
              calls)))"

section \<open>The ingestion function as the webhook reaches it\<close>

text \<open>
  The hop from the webhook to the ingestion function: the body the webhook sent is read
  as a request body of the documented shape (\<open>None\<close> when it has another shape, which
  is outside this model), the ingestion handler runs, and its response comes back as
  the result of \<open>fetch\<close>.
\<close>

definition read_number :: "jsval \<Rightarrow> real option option" where
  "read_number v =
     (case v of
        None \<Rightarrow> Some None
      | Some JNull \<Rightarrow> Some None
      | Some (JNum x) \<Rightarrow> Some (Some x)
      | Some _ \<Rightarrow> None)"

definition read_location :: "json \<Rightarrow> location option" where
  "read_location j =
     (case (opt_prop (Some j) ''lat'', opt_prop (Some j) ''lng'') of
        (Some (JNum la), Some (JNum lo)) \<Rightarrow> Some \<lparr> lat = la, lng = lo \<rparr>
      | _ \<Rightarrow> None)"

definition read_locations :: "jsval \<Rightarrow> location list option option" where
  "read_locations v =
     (case v of
        None \<Rightarrow> Some None
      | Some JNull \<Rightarrow> Some None
      | Some (JArr xs) \<Rightarrow> map_option Some (those (map read_location xs))
      | Some _ \<Rightarrow> None)"

definition read_ingest_body :: "json \<Rightarrow> (thrown + ingest_body) option" where
  "read_ingest_body j =
     (case j of
        JNull \<Rightarrow> Some (Inl (ErrorObj ''Cannot destructure property of null''))
      | _ \<Rightarrow>
          (case (read_number (opt_prop (Some j) ''latitude''),
                 read_number (opt_prop (Some j) ''longitude''),
                 read_locations (opt_prop (Some j) ''locations'')) of
             (Some la, Some lo, Some locs) \<Rightarrow>
               Some (Inr \<lparr> body_trigger = opt_prop (Some j) ''trigger'',
                           body_source = opt_prop (Some j) ''source'',
                           body_latitude = la, body_longitude = lo, body_locations = locs \<rparr>)
           | _ \<Rightarrow> None))"

definition ingest_endpoint ::
  "'db platform \<Rightarrow> 'db world \<Rightarrow> fetch_request \<Rightarrow> (thrown + fetch_response) option"
where
  "ingest_endpoint ipf w rq =
     (case read_ingest_body (fetch_body rq) of
        None \<Rightarrow> None
      | Some parsed \<Rightarrow>
          (let r = fst (ingest_handler ipf \<lparr> req_method = fetch_method rq, req_json = parsed \<rparr> w)
           in Some (Inr \<lparr> resp_status = status r,
                           resp_json = (case body r of
                                          None \<Rightarrow> Inl (ErrorObj ''Unexpected end of JSON input'')
                                        | Some j \<Rightarrow> Inr j) \<rparr>)))"

section \<open>The table \<open>satellite_data\<close>\<close>

text \<open>
  The table as its \<open>CREATE TABLE\<close> statement declares it:
  \<open>latitude DECIMAL(10, 8)\<close>, \<open>longitude DECIMAL(11, 8)\<close>,
  \<open>cloud_coverage\<close>, \<open>vegetation_index\<close> and \<open>water_index DECIMAL(5, 2)\<close>,
  \<open>temperature DECIMAL(6, 2)\<close>, \<open>risk_indicators JSONB\<close>, \<open>source TEXT\<close>,
  \<open>acquisition_time TIMESTAMP WITH TIME ZONE\<close>. The database engine is not part of
  the repository; the meaning of a column type is taken from PostgreSQL: a value
  assigned to a \<open>DECIMAL(p, s)\<close> column is rounded to \<open>s\<close> digits after the point
  (ties away from zero), and the statement fails when the result needs more than
  \<open>p - s\<close> digits before the point. The other columns keep the value they are given.
  A row is written with the fields of the inserted point; \<open>id\<close>,
  \<open>processing_status\<close>, \<open>created_at\<close> and \<open>updated_at\<close> take their defaults and
  are left out.
\<close>

definition numeric_round :: "nat \<Rightarrow> real \<Rightarrow> real" where
  "numeric_round s x = sgn x * of_int \<lfloor>\<bar>x\<bar> * 10 ^ s + 1 / 2\<rfloor> / 10 ^ s"

definition DECIMAL :: "nat \<Rightarrow> nat \<Rightarrow> real \<Rightarrow> real option" where
  "DECIMAL p s x =
     (if \<bar>numeric_round s x\<bar> < 10 ^ (p - s) then Some (numeric_round s x) else None)"

definition store_row :: "SatelliteDataPoint \<Rightarrow> SatelliteDataPoint option" where
  "store_row p =
     (case (DECIMAL 10 8 (latitude p), DECIMAL 11 8 (longitude p),
            DECIMAL 5 2 (cloud_coverage p), DECIMAL 5 2 (vegetation_index p),
            DECIMAL 5 2 (water_index p), DECIMAL 6 2 (temperature p)) of
        (Some la, Some lo, Some c, Some v, Some w, Some tp) \<Rightarrow>
          Some (p\<lparr> latitude := la, longitude := lo, cloud_coverage := c,
                   vegetation_index := v, water_index := w, temperature := tp \<rparr>)
      | _ \<Rightarrow> None)"

text \<open>One \<open>INSERT\<close> statement for all rows: either every row is stored or none.\<close>

definition pg_insert ::
  "SatelliteDataPoint list \<Rightarrow> SatelliteDataPoint list \<Rightarrow> db_error option \<times> SatelliteDataPoint list"
where
  "pg_insert tbl rows =
     (case those (map store_row rows) of
        None \<Rightarrow> (Some (DbError ''numeric field overflow''), tbl)
      | Some stored \<Rightarrow> (None, tbl @ stored))"


section \<open>Notions of the specification\<close>

text \<open>
  \<open>clamp(lo, hi, x)\<close> and the ranges the specification gives for the fields of a
  generated point.
\<close>

definition clamp :: "real \<Rightarrow> real \<Rightarrow> real \<Rightarrow> real" where
  "clamp lo hi x = (if x < lo then lo else if hi < x then hi else x)"

definition point_in_bounds :: "SatelliteDataPoint \<Rightarrow> bool" where
  "point_in_bounds p =
     (0 \<le> cloud_coverage p \<and> cloud_coverage p \<le> 30 \<and>
      0.2 \<le> vegetation_index p \<and> vegetation_index p \<le> 0.8 \<and>
      - 0.3 \<le> water_index p \<and> water_index p \<le> 0.2 \<and>
      15 \<le> temperature p \<and> temperature p \<le> 30 \<and>
      0 \<le> flood_risk (risk_indicators p) \<and> flood_risk (risk_indicators p) \<le> 100 \<and>
      0 \<le> drought_risk (risk_indicators p) \<and> drought_risk (risk_indicators p) \<le> 100 \<and>
      0 \<le> wildfire_risk (risk_indicators p) \<and> wildfire_risk (risk_indicators p) \<le> 100 \<and>
      0 \<le> storm_risk (risk_indicators p) \<and> storm_risk (risk_indicators p) \<le> 100)"

text \<open>
  The selection rule in the words of the specification: the given \<open>locations\<close>, else
  the single given coordinate pair, else the five default cities.
\<close>

definition documented_locations :: "ingest_body \<Rightarrow> location list" where
  "documented_locations b =
     (case body_locations b of
        Some locations \<Rightarrow> locations
      | None \<Rightarrow>
          (case (body_latitude b, body_longitude b) of
             (Some la, Some lo) \<Rightarrow> [\<lparr> lat = la, lng = lo \<rparr>]
           | _ \<Rightarrow> defaultLocations))"




section \<open>Example deployments and requests\<close>

text \<open>
  A database client whose inserts follow a script: the \<open>n\<close>-th call returns
  \<open>outcome n\<close>; the database counts the calls.
\<close>

definition scripted_insert ::
  "(nat \<Rightarrow> db_error option) \<Rightarrow> nat \<Rightarrow> SatelliteDataPoint list \<Rightarrow> db_error option \<times> nat"
where
  "scripted_insert outcome n rows = (outcome n, n + 1)"

text \<open>An example deployment and an example request with three locations.\<close>

definition example_platform :: "(nat \<Rightarrow> db_error option) \<Rightarrow> nat platform" where
  "example_platform outcome =
     \<lparr> Math_random = (\<lambda>n. 1 / 2),
       Date_toISOString = (\<lambda>n. ''2025-11-09T12:56:01.000Z''),
       env = (\<lambda>name. Some ''secret''),
       createClient = (\<lambda>supabaseUrl supabaseKey. None),
       db_insert = scripted_insert outcome \<rparr>"

definition example_world :: "nat world" where
  "example_world = \<lparr> draws = 0, ticks = 0, db = 0, console = [] \<rparr>"




definition envelope_without_message :: "json request" where
  "envelope_without_message =
     \<lparr> req_method = ''POST'',
       req_json = Inr (JObj [(''subscription'', JStr ''projects/p/subscriptions/s'')]) \<rparr>"

definition silent_platform :: webhook_platform where
  "silent_platform =
     \<lparr> atob = (\<lambda>v. Inl (ErrorObj ''Failed to decode base64'')),
       JSON_parse = (\<lambda>s. Inl (ErrorObj ''Unexpected end of JSON input'')),
       wh_env = (\<lambda>name. None),
       wh_createClient = (\<lambda>supabaseUrl supabaseKey. Some (ErrorObj ''supabaseUrl is required.'')),
       fetch = (\<lambda>rq. Inl (ErrorObj ''error sending request'')),
       wh_date = ''2025-11-09T12:56:01.000Z'' \<rparr>"

text \<open>
  The scenario of the specification: a Pub/Sub envelope whose data decodes to the event
  \<open>new_sentinel_data\<close> at \<open>(40.7128, -74.006)\<close>, on a deployment where the
  webhook's \<open>fetch\<close> reaches the ingestion handler and no insert fails. \<open>atob\<close> and
  \<open>JSON.parse\<close> are given by their values on this envelope.
\<close>

definition pubsub_envelope :: "json request" where
  "pubsub_envelope =
     \<lparr> req_method = ''POST'',
       req_json = Inr (JObj
         [(''message'', JObj [(''data'', JStr ''eyJldmVudFR5cGUiOiJuZXdfc2VudGluZWxfZGF0YSJ9''),
                              (''messageId'', JStr ''136969346945''),
                              (''publishTime'', JStr ''2025-11-09T12:56:00.000Z'')]),
          (''subscription'', JStr ''projects/p/subscriptions/s'')]) \<rparr>"

definition sentinel_event :: json where
  "sentinel_event =
     JObj [(''eventType'', JStr ''new_sentinel_data''),
           (''satellite'', JStr ''Sentinel-2''),
           (''location'', JObj [(''latitude'', JNum 40.7128), (''longitude'', JNum (- 74.006))]),
           (''severity'', JStr ''high'')]"

definition never_fails :: "nat \<Rightarrow> db_error option" where
  "never_fails n = None"

definition linked_platform :: webhook_platform where
  "linked_platform =
     \<lparr> atob = (\<lambda>v. Inr ''decoded event text''),
       JSON_parse = (\<lambda>s. Inr sentinel_event),
       wh_env = (\<lambda>name. Some ''secret''),
       wh_createClient = (\<lambda>supabaseUrl supabaseKey. None),
       fetch = (\<lambda>rq. case ingest_endpoint (example_platform never_fails) example_world rq of
                        Some r \<Rightarrow> r
                      | None \<Rightarrow> Inl (ErrorObj ''error sending request'')),
       wh_date = ''2025-11-09T12:56:01.000Z'' \<rparr>"

text \<open>
  The same deployment with an ingestion endpoint that answers with a fixed status and a
  fixed JSON body.
\<close>

definition answering_platform :: "nat \<Rightarrow> json \<Rightarrow> webhook_platform" where
  "answering_platform st result =
     linked_platform \<lparr> fetch := (\<lambda>rq. Inr \<lparr> resp_status = st, resp_json = Inr result \<rparr>) \<rparr>"

definition ingestion_error_body :: json where
  "ingestion_error_body =
     JObj [(''success'', JBool False),
           (''error'', JStr ''Unexpected end of JSON input''),
           (''timestamp'', JStr ''2025-11-09T12:56:01.000Z'')]"

text \<open>A deployment on the table \<open>satellite_data\<close>, and a request for one location.\<close>

definition table_platform :: "SatelliteDataPoint list platform" where
  "table_platform =
     \<lparr> Math_random = (\<lambda>n. 1 / 2),
       Date_toISOString = (\<lambda>n. ''2025-11-09T12:56:01.000Z''),
       env = (\<lambda>name. Some ''secret''),
       createClient = (\<lambda>supabaseUrl supabaseKey. None),
       db_insert = pg_insert \<rparr>"

definition empty_table_world :: "SatelliteDataPoint list world" where
  "empty_table_world = \<lparr> draws = 0, ticks = 0, db = [], console = [] \<rparr>"

definition manual_request :: "ingest_body request" where
  "manual_request =
     \<lparr> req_method = ''POST'',
       req_json = Inr \<lparr> body_trigger = Some (JStr ''manual''), body_source = Some (JStr ''api''),
                         body_latitude = Some 40.7128, body_longitude = Some (- 74.0060),
                         body_locations = None \<rparr> \<rparr>"

section \<open>The generator in closed form\<close>

text \<open>
  The two loops push the points row by row: the point of indices \<open>(i, j)\<close> is the
  \<open>(7 * i + j)\<close>-th of the list, made from the draws \<open>k + 5 * (7 * i + j)\<close> and
  following.
\<close>

declare inner_loop.simps [simp del] outer_loop.simps [simp del]

lemma inner_loop_closed:
  "j \<le> gridSize \<Longrightarrow>
   inner_loop rnd clock la lo i j (pts, k0 + 5 * j, t0 + j) =
     (pts @ map (\<lambda>m. grid_point rnd clock la lo i m (k0 + 5 * m) (t0 + m)) [j..<gridSize],
      k0 + 5 * gridSize, t0 + gridSize)"
proof (induction "gridSize - j" arbitrary: j pts)
  case 0
  then have "j = gridSize" by simp
  then show ?case by (subst inner_loop.simps) simp
next
  case (Suc n)
  then have lt: "j < gridSize" and n: "n = gridSize - (j + 1)" and le: "j + 1 \<le> gridSize"
    by simp_all
  have upt: "[j..<gridSize] = j # [j + 1..<gridSize]"
    using lt by (simp add: upt_conv_Cons)
  have "inner_loop rnd clock la lo i j (pts, k0 + 5 * j, t0 + j)
      = inner_loop rnd clock la lo i (j + 1)
          (pts @ [grid_point rnd clock la lo i j (k0 + 5 * j) (t0 + j)],
           k0 + 5 * (j + 1), t0 + (j + 1))"
    using lt by (subst inner_loop.simps) (simp add: algebra_simps)
  also have "\<dots> = ((pts @ [grid_point rnd clock la lo i j (k0 + 5 * j) (t0 + j)]) @
        map (\<lambda>m. grid_point rnd clock la lo i m (k0 + 5 * m) (t0 + m)) [j + 1..<gridSize],
        k0 + 5 * gridSize, t0 + gridSize)"
    by (rule Suc.hyps(1)[OF n le])
  finally show ?case
    unfolding upt by simp
qed

lemma inner_loop_0:
  "inner_loop rnd clock la lo i 0 (pts, k, t) =
     (pts @ map (\<lambda>m. grid_point rnd clock la lo i m (k + 5 * m) (t + m)) [0..<gridSize],
      k + 5 * gridSize, t + gridSize)"
  using inner_loop_closed[of 0 rnd clock la lo i pts k t] by simp

lemma outer_loop_closed:
  "i \<le> gridSize \<Longrightarrow>
   outer_loop rnd clock la lo i (pts, k0 + 5 * gridSize * i, t0 + gridSize * i) =
     (pts @ concat (map (\<lambda>a. map (\<lambda>m. grid_point rnd clock la lo a m
                                     (k0 + 5 * gridSize * a + 5 * m) (t0 + gridSize * a + m))
                               [0..<gridSize]) [i..<gridSize]),
      k0 + 5 * gridSize * gridSize, t0 + gridSize * gridSize)"
proof (induction "gridSize - i" arbitrary: i pts)
  case 0
  then have "i = gridSize" by simp
  then show ?case by (subst outer_loop.simps) simp
next
  case (Suc n)
  then have lt: "i < gridSize" and n: "n = gridSize - (i + 1)" and le: "i + 1 \<le> gridSize"
    by simp_all
  have upt: "[i..<gridSize] = i # [i + 1..<gridSize]"
    using lt by (simp add: upt_conv_Cons)
  let ?row = "map (\<lambda>m. grid_point rnd clock la lo i m
                      (k0 + 5 * gridSize * i + 5 * m) (t0 + gridSize * i + m)) [0..<gridSize]"
  have "outer_loop rnd clock la lo i (pts, k0 + 5 * gridSize * i, t0 + gridSize * i)
      = outer_loop rnd clock la lo (i + 1)
          (pts @ ?row, k0 + 5 * gridSize * (i + 1), t0 + gridSize * (i + 1))"
    using lt by (subst outer_loop.simps) (simp add: inner_loop_0 algebra_simps)
  also have "\<dots> = ((pts @ ?row) @
        concat (map (\<lambda>a. map (\<lambda>m. grid_point rnd clock la lo a m
                                     (k0 + 5 * gridSize * a + 5 * m) (t0 + gridSize * a + m))
                               [0..<gridSize]) [i + 1..<gridSize]),
        k0 + 5 * gridSize * gridSize, t0 + gridSize * gridSize)"
    by (rule Suc.hyps(1)[OF n le])
  finally show ?case
    unfolding upt by simp
qed

lemma map_block:
  "map (\<lambda>n. f (n div c) (n mod c)) [r * c..<r * c + c] = map (\<lambda>m. f r m) [0..<c]"
proof (rule nth_equalityI)
  show "length (map (\<lambda>n. f (n div c) (n mod c)) [r * c..<r * c + c]) = length (map (\<lambda>m. f r m) [0..<c])"
    by simp
next
  fix i assume "i < length (map (\<lambda>n. f (n div c) (n mod c)) [r * c..<r * c + c])"
  then have i: "i < c" by simp
  then have "(r * c + i) div c = r" "(r * c + i) mod c = i" by simp_all
  with i show "map (\<lambda>n. f (n div c) (n mod c)) [r * c..<r * c + c] ! i = map (\<lambda>m. f r m) [0..<c] ! i"
    by simp
qed

lemma concat_rows_flat:
  "concat (map (\<lambda>a. map (\<lambda>m. f a m) [0..<c]) [0..<r]) = map (\<lambda>n. f (n div c) (n mod c)) [0..<r * c]"
proof (induction r)
  case 0
  then show ?case by simp
next
  case (Suc r)
  have "[0..<Suc r * c] = [0..<r * c + c]"
    by (simp only: mult_Suc add.commute)
  also have "\<dots> = [0..<r * c] @ [r * c..<r * c + c]"
    by (rule upt_add_eq_append) simp
  finally have split: "[0..<Suc r * c] = [0..<r * c] @ [r * c..<r * c + c]" .
  have "concat (map (\<lambda>a. map (\<lambda>m. f a m) [0..<c]) [0..<Suc r])
      = concat (map (\<lambda>a. map (\<lambda>m. f a m) [0..<c]) [0..<r]) @ map (\<lambda>m. f r m) [0..<c]"
    by simp
  also have "\<dots> = map (\<lambda>n. f (n div c) (n mod c)) [0..<r * c] @ map (\<lambda>n. f (n div c) (n mod c)) [r * c..<r * c + c]"
    by (simp only: Suc.IH map_block)
  also have "\<dots> = map (\<lambda>n. f (n div c) (n mod c)) [0..<Suc r * c]"
    by (simp only: split map_append)
  finally show ?case .
qed


lemma fetchSatelliteData_flat:
  "fetchSatelliteData rnd clock la lo token k t =
     (map (\<lambda>n. grid_point rnd clock la lo (n div gridSize) (n mod gridSize) (k + 5 * n) (t + n))
        [0..<gridSize * gridSize],
      k + 5 * gridSize * gridSize, t + gridSize * gridSize)"
proof -
  have k: "k + 5 * gridSize * (n div gridSize) + 5 * (n mod gridSize) = k + 5 * n" for n
  proof -
    have "5 * gridSize * (n div gridSize) + 5 * (n mod gridSize)
        = 5 * (gridSize * (n div gridSize) + n mod gridSize)"
      by (simp only: distrib_left mult.assoc)
    also have "\<dots> = 5 * n" by simp
    finally show ?thesis by simp
  qed
  have t: "t + gridSize * (n div gridSize) + n mod gridSize = t + n" for n
    by (simp add: add.assoc)
  have "fetchSatelliteData rnd clock la lo token k t
      = outer_loop rnd clock la lo 0 ([], k + 5 * gridSize * 0, t + gridSize * 0)"
    by (simp add: fetchSatelliteData_def)
  also have "\<dots> = ([] @ concat (map (\<lambda>a. map (\<lambda>m. grid_point rnd clock la lo a m
                                     (k + 5 * gridSize * a + 5 * m) (t + gridSize * a + m))
                               [0..<gridSize]) [0..<gridSize]),
      k + 5 * gridSize * gridSize, t + gridSize * gridSize)"
    by (rule outer_loop_closed) simp
  also have "concat (map (\<lambda>a. map (\<lambda>m. grid_point rnd clock la lo a m
                                     (k + 5 * gridSize * a + 5 * m) (t + gridSize * a + m))
                               [0..<gridSize]) [0..<gridSize])
      = map (\<lambda>n. grid_point rnd clock la lo (n div gridSize) (n mod gridSize)
               (k + 5 * gridSize * (n div gridSize) + 5 * (n mod gridSize))
               (t + gridSize * (n div gridSize) + n mod gridSize)) [0..<gridSize * gridSize]"
    by (rule concat_rows_flat)
  finally show ?thesis
    by (simp only: k t append_Nil)
qed

lemma length_fetchSatelliteData:
  "length (fst (fetchSatelliteData rnd clock la lo token k t)) = 49"
  by (simp add: fetchSatelliteData_flat gridSize_def)

lemma nth_fetchSatelliteData:
  "n < 49 \<Longrightarrow> fst (fetchSatelliteData rnd clock la lo token k t) ! n =
     grid_point rnd clock la lo (n div 7) (n mod 7) (k + 5 * n) (t + n)"
  by (simp add: fetchSatelliteData_flat gridSize_def)


lemma in_set_fetchSatelliteData:
  "p \<in> set (fst (fetchSatelliteData rnd clock la lo token k t)) \<longleftrightarrow>
     (\<exists>n<49. p = grid_point rnd clock la lo (n div 7) (n mod 7) (k + 5 * n) (t + n))"
  by (auto simp add: fetchSatelliteData_flat gridSize_def)

lemma Math_min_max_clamp: "Math_min 100 (Math_max 0 x) = clamp 0 100 x"
  by (simp add: Math_min_def Math_max_def clamp_def)


lemma Math_round_bounds:
  assumes "of_int a \<le> x" and "x \<le> of_int b"
  shows "of_int a \<le> Math_round x \<and> Math_round x \<le> of_int b"
proof -
  have "a \<le> \<lfloor>x + 1 / 2\<rfloor>"
    using assms(1) by (simp add: le_floor_iff)
  moreover have "\<lfloor>x + 1 / 2\<rfloor> \<le> b"
    using assms(2) by (simp add: floor_le_iff)
  ultimately show ?thesis
    by (simp add: Math_round_def)
qed

lemma Math_round2_bounds:
  assumes "of_int a / 100 \<le> x" and "x \<le> of_int b / 100"
  shows "of_int a / 100 \<le> Math_round (x * 100) / 100 \<and> Math_round (x * 100) / 100 \<le> of_int b / 100"
proof -
  have "of_int a \<le> x * 100" "x * 100 \<le> of_int b"
    using assms by (simp_all add: field_simps)
  from Math_round_bounds[OF this] show ?thesis
    by (simp add: divide_le_cancel)
qed

lemma clamp_bounds: "0 \<le> clamp 0 100 x \<and> clamp 0 100 x \<le> 100"
  by (simp add: clamp_def)

lemma risk_bounds: "0 \<le> Math_round (clamp 0 100 x) \<and> Math_round (clamp 0 100 x) \<le> 100"
  using Math_round_bounds[of 0 "clamp 0 100 x" 100] clamp_bounds[of x] by simp

lemma draws_bounds:
  assumes "unit_draws rnd"
  shows "0 \<le> cloudCoverage rnd k" "cloudCoverage rnd k < 30"
    "0.2 \<le> vegetationIndex rnd k" "vegetationIndex rnd k < 0.8"
    "- 0.3 \<le> waterIndex rnd k" "waterIndex rnd k < 0.2"
    "15 \<le> temperature_draw rnd k" "temperature_draw rnd k < 30"
    "0 \<le> storm_draw rnd k" "storm_draw rnd k < 30"
proof -
  have r: "0 \<le> rnd m" "rnd m < 1" for m
    using assms by (simp_all add: unit_draws_def)
  show "0 \<le> cloudCoverage rnd k" "cloudCoverage rnd k < 30"
    using r[of k] by (simp_all add: cloudCoverage_def)
  show "0.2 \<le> vegetationIndex rnd k" "vegetationIndex rnd k < 0.8"
    using r[of "k + 1"] by (simp_all add: vegetationIndex_def)
  show "- 0.3 \<le> waterIndex rnd k" "waterIndex rnd k < 0.2"
    using r[of "k + 2"] by (simp_all add: waterIndex_def)
  show "15 \<le> temperature_draw rnd k" "temperature_draw rnd k < 30"
    using r[of "k + 3"] by (simp_all add: temperature_draw_def)
  show "0 \<le> storm_draw rnd k" "storm_draw rnd k < 30"
    using r[of "k + 4"] by (simp_all add: storm_draw_def)
qed

lemma grid_point_in_bounds:
  assumes "unit_draws rnd"
  shows "point_in_bounds (grid_point rnd clock la lo i j k t)"
proof -
  note d = draws_bounds[OF assms, of k]
  have c: "0 \<le> Math_round (cloudCoverage rnd k * 100) / 100 \<and> Math_round (cloudCoverage rnd k * 100) / 100 \<le> 30"
    using Math_round2_bounds[of 0 "cloudCoverage rnd k" 3000] d(1,2) by simp
  have v: "0.2 \<le> Math_round (vegetationIndex rnd k * 100) / 100 \<and> Math_round (vegetationIndex rnd k * 100) / 100 \<le> 0.8"
    using Math_round2_bounds[of 20 "vegetationIndex rnd k" 80] d(3,4) by simp
  have w: "- 0.3 \<le> Math_round (waterIndex rnd k * 100) / 100 \<and> Math_round (waterIndex rnd k * 100) / 100 \<le> 0.2"
    using Math_round2_bounds[of "- 30" "waterIndex rnd k" 20] d(5,6) by simp
  have tp: "15 \<le> Math_round (temperature_draw rnd k * 100) / 100 \<and> Math_round (temperature_draw rnd k * 100) / 100 \<le> 30"
    using Math_round2_bounds[of 1500 "temperature_draw rnd k" 3000] d(7,8) by simp
  show ?thesis
    unfolding point_in_bounds_def grid_point_def
    using c v w tp
    by (simp add: floodRisk_def droughtRisk_def wildfireRisk_def stormRisk_def
        Math_min_max_clamp risk_bounds)
qed






section \<open>Which locations are processed\<close>

lemma locationsToProcess_documented:
  assumes "body_latitude b \<noteq> Some 0" and "body_longitude b \<noteq> Some 0"
  shows "locationsToProcess b = documented_locations b"
  using assms
  by (simp add: locationsToProcess_def documented_locations_def truthy_num_def
      split: option.splits)

text \<open>
  C4. The rule of the specification fails on the code where a given coordinate is \<open>0\<close>:
  the request \<open>{trigger: "manual", source: "api", latitude: 51.4779, longitude: 0}\<close>
  (a point on the prime meridian) gives both coordinates, and the handler processes
  the five default cities instead of that single location, because
  \<open>latitude && longitude\<close> is falsy when either number is \<open>0\<close>.
\<close>

theorem locationsToProcess_zero_longitude:
  "locationsToProcess
     \<lparr> body_trigger = Some (JStr ''manual''), body_source = Some (JStr ''api''),
       body_latitude = Some 51.4779, body_longitude = Some 0, body_locations = None \<rparr>
     = defaultLocations \<and>
   documented_locations
     \<lparr> body_trigger = Some (JStr ''manual''), body_source = Some (JStr ''api''),
       body_latitude = Some 51.4779, body_longitude = Some 0, body_locations = None \<rparr>
     = [\<lparr> lat = 51.4779, lng = 0 \<rparr>] \<and>
   length defaultLocations = 5"
  by (simp add: locationsToProcess_def documented_locations_def truthy_num_def
      defaultLocations_def)

section \<open>The loop over the locations\<close>


section \<open>The ingestion response\<close>

lemma map_of_defined_props:
  "distinct (map fst props) \<Longrightarrow>
   map_of (List.map_filter (\<lambda>(k, v). map_option (Pair k) v) props) k
     = Option.bind (map_of props k) (\<lambda>v. v)"
proof (induction props)
  case Nil
  then show ?case by simp
next
  case (Cons p props)
  obtain k' v where p: "p = (k', v)" by (cases p)
  from Cons.prems have d: "distinct (map fst props)" and nin: "k' \<notin> fst ` set props"
    by (simp_all add: p)
  have absent: "map_of props k' = None"
    using nin by (simp add: map_of_eq_None_iff)
  show ?case
  proof (cases v)
    case None
    then show ?thesis
      using Cons.IH[OF d] absent by (simp add: p)
  next
    case (Some x)
    then show ?thesis
      using Cons.IH[OF d] by (simp add: p)
  qed
qed

lemma opt_prop_stringify:
  "distinct (map fst props) \<Longrightarrow>
   opt_prop (Some (JSON_stringify props)) k = Option.bind (map_of props k) (\<lambda>v. v)"
  by (simp add: opt_prop_def get_prop_def JSON_stringify_def map_of_defined_props)











section \<open>The webhook response\<close>

lemma webhook_handler_unfold:
  "req_method req \<noteq> ''OPTIONS'' \<Longrightarrow>
   webhook_handler pf req =
     (case webhook_try pf req of
        (Inr r, calls) \<Rightarrow> (r, calls)
      | (Inl error, calls) \<Rightarrow>
          (\<lparr> status = 200, headers = json_headers,
              body = Some (JSON_stringify
                [(''success'', Some (JBool False)),
                 (''error'', Some (JStr (errorMessage error))),
                 (''timestamp'', Some (JStr (wh_date pf)))]) \<rparr>,
           calls))"
  by (simp add: webhook_handler_def)

lemma webhook_try_Inr_status:
  "fst (webhook_try pf req) = Inr r \<Longrightarrow> status r = 200"
  by (auto simp add: webhook_try_def split: sum.splits option.splits if_splits)

lemma webhook_status_200: "status (fst (webhook_handler pf req)) = 200"
proof (cases "req_method req = ''OPTIONS''")
  case True
  then show ?thesis
    by (simp add: webhook_handler_def preflight_response_def)
next
  case False
  obtain x calls where t: "webhook_try pf req = (x, calls)"
    by (cases "webhook_try pf req")
  show ?thesis
  proof (cases x)
    case (Inl e)
    with t False show ?thesis
      by (simp add: webhook_handler_unfold)
  next
    case (Inr r)
    with t have "fst (webhook_try pf req) = Inr r" by simp
    from webhook_try_Inr_status[OF this] t Inr False show ?thesis
      by (simp add: webhook_handler_unfold)
  qed
qed

lemma webhook_error_body:
  assumes "req_method req \<noteq> ''OPTIONS''" and "fst (webhook_try pf req) = Inl e"
  shows "fst (webhook_handler pf req)
     = \<lparr> status = 200, headers = json_headers,
         body = Some (JObj [(''success'', JBool False),
                            (''error'', JStr (errorMessage e)),
                            (''timestamp'', JStr (wh_date pf))]) \<rparr>"
proof -
  obtain calls where "webhook_try pf req = (Inl e, calls)"
    using assms(2) by (cases "webhook_try pf req") simp
  then show ?thesis
    using assms(1) by (simp add: webhook_handler_unfold JSON_stringify_def)
qed

lemma webhook_try_causes:
  "req_json req = Inl e \<Longrightarrow> fst (webhook_try pf req) = Inl e"
  "req_json req = Inr envelope \<Longrightarrow> get_prop (Some envelope) ''message'' = Inr message \<Longrightarrow>
     \<not> truthy message \<Longrightarrow>
     fst (webhook_try pf req) = Inl (ErrorObj ''Invalid Pub/Sub message format'')"
  "req_json req = Inr envelope \<Longrightarrow> get_prop (Some envelope) ''message'' = Inr message \<Longrightarrow>
     truthy message \<Longrightarrow> atob pf (opt_prop message ''data'') = Inl e \<Longrightarrow>
     fst (webhook_try pf req) = Inl e"
  "req_json req = Inr envelope \<Longrightarrow> get_prop (Some envelope) ''message'' = Inr message \<Longrightarrow>
     truthy message \<Longrightarrow> atob pf (opt_prop message ''data'') = Inr decodedData \<Longrightarrow>
     JSON_parse pf decodedData = Inl e \<Longrightarrow>
     fst (webhook_try pf req) = Inl e"
  "req_json req = Inr envelope \<Longrightarrow> get_prop (Some envelope) ''message'' = Inr message \<Longrightarrow>
     truthy message \<Longrightarrow> atob pf (opt_prop message ''data'') = Inr decodedData \<Longrightarrow>
     JSON_parse pf decodedData = Inr messageData \<Longrightarrow> destructure_event messageData = Inr ev \<Longrightarrow>
     wh_createClient pf (wh_env pf ''SUPABASE_URL'') (wh_env pf ''SUPABASE_SERVICE_ROLE_KEY'') = None \<Longrightarrow>
     fetch pf (ingest_request pf ev) = Inl e \<Longrightarrow>
     fst (webhook_try pf req) = Inl e"
  by (simp_all add: webhook_try_def)

text \<open>
  C6. The webhook answers every request with status 200. When anything is thrown in its
  \<open>try\<close> block (an unreadable body, an envelope without \<open>message\<close>, a failing
  \<open>atob\<close> or \<open>JSON.parse\<close>, a failing call of the ingestion function) the body is
  \<open>{success: false, error, timestamp}\<close>, still with status 200.
\<close>

theorem webhook_always_200:
  "status (fst (webhook_handler pf req)) = 200 \<and>
   (req_method req \<noteq> ''OPTIONS'' \<and> fst (webhook_try pf req) = Inl e \<longrightarrow>
      fst (webhook_handler pf req)
        = \<lparr> status = 200, headers = json_headers,
            body = Some (JObj [(''success'', JBool False),
                               (''error'', JStr (errorMessage e)),
                               (''timestamp'', JStr (wh_date pf))]) \<rparr>) \<and>
   (req_json req = Inl e \<longrightarrow> fst (webhook_try pf req) = Inl e) \<and>
   (req_json req = Inr envelope \<and> get_prop (Some envelope) ''message'' = Inr message \<and>
    \<not> truthy message \<longrightarrow>
      fst (webhook_try pf req) = Inl (ErrorObj ''Invalid Pub/Sub message format'')) \<and>
   (req_json req = Inr envelope \<and> get_prop (Some envelope) ''message'' = Inr message \<and>
    truthy message \<and> atob pf (opt_prop message ''data'') = Inl e \<longrightarrow>
      fst (webhook_try pf req) = Inl e) \<and>
   (req_json req = Inr envelope \<and> get_prop (Some envelope) ''message'' = Inr message \<and>
    truthy message \<and> atob pf (opt_prop message ''data'') = Inr decodedData \<and>
    JSON_parse pf decodedData = Inl e \<longrightarrow>
      fst (webhook_try pf req) = Inl e) \<and>
   (req_json req = Inr envelope \<and> get_prop (Some envelope) ''message'' = Inr message \<and>
    truthy message \<and> atob pf (opt_prop message ''data'') = Inr decodedData \<and>
    JSON_parse pf decodedData = Inr messageData \<and> destructure_event messageData = Inr ev \<and>
    wh_createClient pf (wh_env pf ''SUPABASE_URL'') (wh_env pf ''SUPABASE_SERVICE_ROLE_KEY'') = None \<and>
    fetch pf (ingest_request pf ev) = Inl e \<longrightarrow>
      fst (webhook_try pf req) = Inl e)"
  using webhook_status_200[of pf req] webhook_error_body[of req pf e]
    webhook_try_causes(1)[of req e pf]
    webhook_try_causes(2)[of req envelope message pf]
    webhook_try_causes(3)[of req envelope message pf e]
    webhook_try_causes(4)[of req envelope message pf decodedData e]
    webhook_try_causes(5)[of req envelope message pf decodedData messageData ev e]
  by (intro conjI impI; (elim conjE)?; assumption?) blast+

theorem webhook_always_200_witness:
  "req_method envelope_without_message \<noteq> ''OPTIONS'' \<and>
   req_json envelope_without_message = Inr (JObj [(''subscription'', JStr ''projects/p/subscriptions/s'')]) \<and>
   get_prop (Some (JObj [(''subscription'', JStr ''projects/p/subscriptions/s'')])) ''message'' = Inr None \<and>
   \<not> truthy None \<and>
   fst (webhook_handler silent_platform envelope_without_message)
     = \<lparr> status = 200, headers = json_headers,
         body = Some (JObj [(''success'', JBool False),
                            (''error'', JStr ''Invalid Pub/Sub message format''),
                            (''timestamp'', JStr ''2025-11-09T12:56:01.000Z'')]) \<rparr>"
proof -
  let ?env = "JObj [(''subscription'', JStr ''projects/p/subscriptions/s'')]"
  have h1: "req_method envelope_without_message \<noteq> ''OPTIONS''"
    by (simp add: envelope_without_message_def)
  have h2: "req_json envelope_without_message = Inr ?env"
    by (simp add: envelope_without_message_def)
  have h3: "get_prop (Some ?env) ''message'' = Inr None"
    by (simp add: get_prop_def)
  have h4: "\<not> truthy None"
    by simp
  note th = webhook_always_200[of silent_platform envelope_without_message
      "ErrorObj ''Invalid Pub/Sub message format''" ?env None]
  from th[THEN conjunct2, THEN conjunct2, THEN conjunct2, THEN conjunct1] h2 h3 h4
  have t: "fst (webhook_try silent_platform envelope_without_message)
         = Inl (ErrorObj ''Invalid Pub/Sub message format'')"
    by blast
  from th[THEN conjunct2, THEN conjunct1] h1 t
  have "fst (webhook_handler silent_platform envelope_without_message)
     = \<lparr> status = 200, headers = json_headers,
         body = Some (JObj [(''success'', JBool False),
                            (''error'', JStr (errorMessage (ErrorObj ''Invalid Pub/Sub message format''))),
                            (''timestamp'', JStr (wh_date silent_platform))]) \<rparr>"
    by blast
  with h1 h2 h3 h4 show ?thesis
    by (simp add: errorMessage_def silent_platform_def)
qed

section \<open>From the webhook to the ingestion function\<close>


lemma webhook_try_decoded:
  assumes "req_json req = Inr envelope"
    and "get_prop (Some envelope) ''message'' = Inr message"
    and "truthy message"
    and "atob pf (opt_prop message ''data'') = Inr decodedData"
    and "JSON_parse pf decodedData = Inr messageData"
    and "destructure_event messageData = Inr ev"
    and "wh_createClient pf (wh_env pf ''SUPABASE_URL'') (wh_env pf ''SUPABASE_SERVICE_ROLE_KEY'') = None"
  shows "webhook_try pf req =
     (case fetch pf (ingest_request pf ev) of
        Inl e \<Rightarrow> (Inl e, [ingest_request pf ev])
      | Inr ingestResponse \<Rightarrow>
     (case resp_json ingestResponse of
        Inl e \<Rightarrow> (Inl e, [ingest_request pf ev])
      | Inr ingestResult \<Rightarrow>
     (case get_prop (Some ingestResult) ''dataPointsInserted'' of
        Inl e \<Rightarrow> (Inl e, [ingest_request pf ev])
      | Inr dataPointsInserted \<Rightarrow>
          (Inr \<lparr> status = 200, headers = json_headers,
                 body = Some (JSON_stringify
                   [(''success'', Some (JBool True)),
                    (''message'', Some (JStr ''Satellite event processed successfully'')),
                    (''messageId'', opt_prop message ''messageId''),
                    (''eventType'', eventType ev),
                    (''dataPointsProcessed'', dataPointsInserted)]) \<rparr>,
           [ingest_request pf ev]))))"
  using assms by (simp add: webhook_try_def)


lemma get_prop_not_null:
  "result \<noteq> JNull \<Longrightarrow> get_prop (Some result) k = Inr (opt_prop (Some result) k)"
  by (cases result) (simp_all add: opt_prop_def get_prop_def)

lemma webhook_success_response:
  assumes "req_method req \<noteq> ''OPTIONS''"
    and "req_json req = Inr envelope"
    and "get_prop (Some envelope) ''message'' = Inr message"
    and "truthy message"
    and "atob pf (opt_prop message ''data'') = Inr decodedData"
    and "JSON_parse pf decodedData = Inr messageData"
    and "destructure_event messageData = Inr ev"
    and "wh_createClient pf (wh_env pf ''SUPABASE_URL'') (wh_env pf ''SUPABASE_SERVICE_ROLE_KEY'') = None"
    and "fetch pf (ingest_request pf ev) = Inr ingestResponse"
    and "resp_json ingestResponse = Inr ingestResult"
    and "ingestResult \<noteq> JNull"
  shows "fst (webhook_handler pf req) =
     \<lparr> status = 200, headers = json_headers,
       body = Some (JSON_stringify
         [(''success'', Some (JBool True)),
          (''message'', Some (JStr ''Satellite event processed successfully'')),
          (''messageId'', opt_prop message ''messageId''),
          (''eventType'', eventType ev),
          (''dataPointsProcessed'', opt_prop (Some ingestResult) ''dataPointsInserted'')]) \<rparr>"
  unfolding webhook_handler_unfold[OF assms(1)] webhook_try_decoded[OF assms(2-8)]
  using assms(9,10) get_prop_not_null[OF assms(11)]
  by simp







section \<open>What the webhook's success flag reports\<close>

lemma ingest_request_fetch_update [simp]:
  "ingest_request (pf\<lparr> fetch := f \<rparr>) ev = ingest_request pf ev"
  by (simp add: ingest_request_def)

lemma destructure_event_defined:
  "messageData \<noteq> JNull \<Longrightarrow> \<exists>ev. destructure_event messageData = Inr ev"
  by (cases messageData) (simp_all add: destructure_event_def)

text \<open>
  The claim C10 as stated fails where the ingestion call returns the JSON body
  \<open>null\<close>: reading \<open>ingestResult.dataPointsInserted\<close> throws, and the webhook answers
  \<open>success: false\<close>.
\<close>

theorem webhook_null_result_counterexample:
  "map (\<lambda>rq. fetch (answering_platform 200 JNull) rq)
       (snd (webhook_handler (answering_platform 200 JNull) pubsub_envelope))
     = [Inr \<lparr> resp_status = 200, resp_json = Inr JNull \<rparr>] \<and>
   opt_prop (body (fst (webhook_handler (answering_platform 200 JNull) pubsub_envelope))) ''success''
     = Some (JBool False)"
  by (simp add: webhook_handler_def webhook_try_def answering_platform_def linked_platform_def
      pubsub_envelope_def sentinel_event_def get_prop_def opt_prop_def destructure_event_def
      JSON_stringify_def errorMessage_def)

text \<open>
  C10, amended. For an envelope whose data decodes to a JSON value other than \<open>null\<close>,
  and an ingestion call that returns any JSON body other than \<open>null\<close>, the webhook
  answers 200 with \<open>success: true\<close> and \<open>dataPointsProcessed\<close> equal to the body's
  \<open>dataPointsInserted\<close>, left out when the body has no such field (as the ingestion
  function's \<open>success: false\<close> body). The answer is the same for every status code of
  the ingestion response and every body with the same \<open>dataPointsInserted\<close>, whatever
  its \<open>success\<close> flag.
\<close>

theorem webhook_success_is_transport_level:
  assumes "req_method req \<noteq> ''OPTIONS''"
    and "req_json req = Inr envelope"
    and "get_prop (Some envelope) ''message'' = Inr message"
    and "truthy message"
    and "atob pf (opt_prop message ''data'') = Inr decodedData"
    and "JSON_parse pf decodedData = Inr messageData"
    and "destructure_event messageData = Inr ev"
    and "wh_createClient pf (wh_env pf ''SUPABASE_URL'') (wh_env pf ''SUPABASE_SERVICE_ROLE_KEY'') = None"
    and "fetch pf (ingest_request pf ev) = Inr ingestResponse"
    and "resp_json ingestResponse = Inr ingestResult"
    and "ingestResult \<noteq> JNull"
  shows "status (fst (webhook_handler pf req)) = 200 \<and>
     opt_prop (body (fst (webhook_handler pf req))) ''success'' = Some (JBool True) \<and>
     opt_prop (body (fst (webhook_handler pf req))) ''dataPointsProcessed''
       = opt_prop (Some ingestResult) ''dataPointsInserted'' \<and>
     (opt_prop (Some ingestResult) ''dataPointsInserted'' = None \<longrightarrow>
        body (fst (webhook_handler pf req)) = Some (JSON_stringify
          [(''success'', Some (JBool True)),
           (''message'', Some (JStr ''Satellite event processed successfully'')),
           (''messageId'', opt_prop message ''messageId''),
           (''eventType'', eventType ev)])) \<and>
     (\<forall>st other.
        other \<noteq> JNull \<and>
        opt_prop (Some other) ''dataPointsInserted'' = opt_prop (Some ingestResult) ''dataPointsInserted''
        \<longrightarrow> fst (webhook_handler
                   (pf\<lparr> fetch := (\<lambda>rq. Inr \<lparr> resp_status = st, resp_json = Inr other \<rparr>) \<rparr>) req)
              = fst (webhook_handler pf req))"
proof -
  note base = assms(1-8)
  note r = webhook_success_response[OF assms]
  have s: "status (fst (webhook_handler pf req)) = 200"
    and t: "opt_prop (body (fst (webhook_handler pf req))) ''success'' = Some (JBool True)"
    and d: "opt_prop (body (fst (webhook_handler pf req))) ''dataPointsProcessed''
       = opt_prop (Some ingestResult) ''dataPointsInserted''"
    unfolding r by (simp_all add: opt_prop_stringify)
  have a: "body (fst (webhook_handler pf req)) = Some (JSON_stringify
          [(''success'', Some (JBool True)),
           (''message'', Some (JStr ''Satellite event processed successfully'')),
           (''messageId'', opt_prop message ''messageId''),
           (''eventType'', eventType ev)])"
    if "opt_prop (Some ingestResult) ''dataPointsInserted'' = None"
    unfolding r using that by (simp add: JSON_stringify_def List.map_filter_def)
  have i: "fst (webhook_handler
                   (pf\<lparr> fetch := (\<lambda>rq. Inr \<lparr> resp_status = st, resp_json = Inr other \<rparr>) \<rparr>) req)
              = fst (webhook_handler pf req)"
    if o: "other \<noteq> JNull"
      and e: "opt_prop (Some other) ''dataPointsInserted'' = opt_prop (Some ingestResult) ''dataPointsInserted''"
    for st other
  proof -
    let ?pf' = "pf\<lparr> fetch := (\<lambda>rq. Inr \<lparr> resp_status = st, resp_json = Inr other \<rparr>) \<rparr>"
    have b5: "atob ?pf' (opt_prop message ''data'') = Inr decodedData"
      and b6: "JSON_parse ?pf' decodedData = Inr messageData"
      and b8: "wh_createClient ?pf' (wh_env ?pf' ''SUPABASE_URL'') (wh_env ?pf' ''SUPABASE_SERVICE_ROLE_KEY'') = None"
      and b9: "fetch ?pf' (ingest_request ?pf' ev) = Inr \<lparr> resp_status = st, resp_json = Inr other \<rparr>"
      and b10: "resp_json \<lparr> resp_status = st, resp_json = Inr other \<rparr> = Inr other"
      using assms(5,6,8) by simp_all
    show ?thesis
      unfolding r webhook_success_response[OF assms(1-4) b5 b6 assms(7) b8 b9 b10 o] e
      by simp
  qed
  from s t d a i show ?thesis
    by (intro conjI allI impI) blast+
qed


theorem webhook_success_is_transport_level_witness:
  "status (fst (webhook_handler (answering_platform 500 ingestion_error_body) pubsub_envelope)) = 200 \<and>
   opt_prop (body (fst (webhook_handler (answering_platform 500 ingestion_error_body) pubsub_envelope)))
     ''success'' = Some (JBool True) \<and>
   opt_prop (body (fst (webhook_handler (answering_platform 500 ingestion_error_body) pubsub_envelope)))
     ''dataPointsProcessed'' = None \<and>
   opt_prop (Some ingestion_error_body) ''success'' = Some (JBool False)"
proof -
  let ?pf = "answering_platform 500 ingestion_error_body"
  let ?msg = "JObj [(''data'', JStr ''eyJldmVudFR5cGUiOiJuZXdfc2VudGluZWxfZGF0YSJ9''),
                    (''messageId'', JStr ''136969346945''),
                    (''publishTime'', JStr ''2025-11-09T12:56:00.000Z'')]"
  let ?envelope = "JObj [(''message'', ?msg), (''subscription'', JStr ''projects/p/subscriptions/s'')]"
  let ?ev = "\<lparr> eventType = Some (JStr ''new_sentinel_data''), satellite = Some (JStr ''Sentinel-2''),
              event_location = Some (JObj [(''latitude'', JNum 40.7128), (''longitude'', JNum (- 74.006))]),
              acquisitionTime = None, severity = Some (JStr ''high'') \<rparr>"
  have h1: "req_method pubsub_envelope \<noteq> ''OPTIONS''"
    and h2: "req_json pubsub_envelope = Inr ?envelope"
    by (simp_all add: pubsub_envelope_def)
  have h3: "get_prop (Some ?envelope) ''message'' = Inr (Some ?msg)"
    by (simp add: get_prop_def)
  have h4: "truthy (Some ?msg)"
    by simp
  have h5: "atob ?pf (opt_prop (Some ?msg) ''data'') = Inr ''decoded event text''"
    and h6: "JSON_parse ?pf ''decoded event text'' = Inr sentinel_event"
    and h8: "wh_createClient ?pf (wh_env ?pf ''SUPABASE_URL'') (wh_env ?pf ''SUPABASE_SERVICE_ROLE_KEY'') = None"
    and h9: "fetch ?pf (ingest_request ?pf ?ev)
               = Inr \<lparr> resp_status = 500, resp_json = Inr ingestion_error_body \<rparr>"
    by (simp_all add: answering_platform_def linked_platform_def)
  have h7: "destructure_event sentinel_event = Inr ?ev"
    by (simp add: sentinel_event_def destructure_event_def opt_prop_def get_prop_def)
  have h10: "resp_json \<lparr> resp_status = 500, resp_json = Inr ingestion_error_body \<rparr>
               = Inr ingestion_error_body"
    by simp
  have h11: "ingestion_error_body \<noteq> JNull"
    by (simp add: ingestion_error_body_def)
  have none: "opt_prop (Some ingestion_error_body) ''dataPointsInserted'' = None"
    and flag: "opt_prop (Some ingestion_error_body) ''success'' = Some (JBool False)"
    by (simp_all add: ingestion_error_body_def opt_prop_def get_prop_def)
  note th = webhook_success_is_transport_level[OF h1 h2 h3 h4 h5 h6 h7 h8 h9 h10 h11]
  from th[THEN conjunct1] th[THEN conjunct2, THEN conjunct1]
    th[THEN conjunct2, THEN conjunct2, THEN conjunct1] none flag
  show ?thesis
    by simp
qed

section \<open>Rounding to a declared scale\<close>

lemma numeric_round_exact:
  "numeric_round s (of_int m / 10 ^ s) = of_int m / 10 ^ s"
proof -
  have a: "\<bar>real_of_int m / 10 ^ s\<bar> * 10 ^ s = of_int \<bar>m\<bar>"
    by simp
  have f: "\<lfloor>real_of_int \<bar>m\<bar> + 1 / 2\<rfloor> = \<bar>m\<bar>"
    by linarith
  have sg: "sgn (real_of_int m / 10 ^ s) = sgn (real_of_int m)"
    by simp
  have "numeric_round s (of_int m / 10 ^ s) = sgn (real_of_int m) * real_of_int \<bar>m\<bar> / 10 ^ s"
    unfolding numeric_round_def a f sg by simp
  also have "sgn (real_of_int m) * real_of_int \<bar>m\<bar> = real_of_int m"
    by (simp add: sgn_mult_abs)
  finally show ?thesis .
qed


lemma numeric_round_error: "\<bar>numeric_round s x - x\<bar> \<le> 1 / (2 * 10 ^ s)"
proof -
  let ?y = "\<bar>x\<bar> * 10 ^ s"
  have fl: "real_of_int \<lfloor>?y + 1 / 2\<rfloor> \<le> ?y + 1 / 2" "?y + 1 / 2 < real_of_int \<lfloor>?y + 1 / 2\<rfloor> + 1"
    by linarith+
  then have d: "\<bar>real_of_int \<lfloor>?y + 1 / 2\<rfloor> - ?y\<bar> \<le> 1 / 2"
    by linarith
  have x: "x = sgn x * \<bar>x\<bar>"
    by (simp add: sgn_mult_abs)
  have "numeric_round s x - x = sgn x * (real_of_int \<lfloor>?y + 1 / 2\<rfloor> - ?y) / 10 ^ s"
    by (subst (2) x) (simp add: numeric_round_def field_simps)
  then have "\<bar>numeric_round s x - x\<bar> = \<bar>sgn x\<bar> * \<bar>real_of_int \<lfloor>?y + 1 / 2\<rfloor> - ?y\<bar> / 10 ^ s"
    by (simp add: abs_mult)
  also have "\<dots> \<le> (1 / 2) / 10 ^ s"
  proof (rule divide_right_mono)
    have "\<bar>sgn x\<bar> \<le> 1" by (simp add: sgn_real_def)
    with d have "\<bar>sgn x\<bar> * \<bar>real_of_int \<lfloor>?y + 1 / 2\<rfloor> - ?y\<bar> \<le> 1 * (1 / 2)"
      by (intro mult_mono) simp_all
    then show "\<bar>sgn x\<bar> * \<bar>real_of_int \<lfloor>?y + 1 / 2\<rfloor> - ?y\<bar> \<le> 1 / 2"
      by simp
    show "(0::real) \<le> 10 ^ s"
      by simp
  qed
  finally show ?thesis by simp
qed

section \<open>Rows stored for generated points\<close>

lemma DECIMAL_Some: "DECIMAL p s x = Some y \<Longrightarrow> y = numeric_round s x"
  by (simp add: DECIMAL_def split: if_splits)

lemma Math_round2_exact:
  "numeric_round 2 (Math_round y / 100) = Math_round y / 100"
  using numeric_round_exact[of 2 "\<lfloor>y + 1 / 2\<rfloor>"] by (simp add: Math_round_def)

lemma store_row_fields:
  assumes "store_row p = Some r"
  shows "latitude r = numeric_round 8 (latitude p)"
    "longitude r = numeric_round 8 (longitude p)"
    "cloud_coverage r = numeric_round 2 (cloud_coverage p)"
    "vegetation_index r = numeric_round 2 (vegetation_index p)"
    "water_index r = numeric_round 2 (water_index p)"
    "temperature r = numeric_round 2 (temperature p)"
    "risk_indicators r = risk_indicators p"
    "source r = source p"
    "acquisition_time r = acquisition_time p"
  using assms
  by (auto simp add: store_row_def split: option.splits dest!: DECIMAL_Some)

lemma store_row_grid_point:
  assumes "store_row (grid_point rnd clock la lo i j k t) = Some r"
  shows "cloud_coverage r = cloud_coverage (grid_point rnd clock la lo i j k t)"
    "vegetation_index r = vegetation_index (grid_point rnd clock la lo i j k t)"
    "water_index r = water_index (grid_point rnd clock la lo i j k t)"
    "temperature r = temperature (grid_point rnd clock la lo i j k t)"
  using store_row_fields(3-6)[OF assms]
  by (simp_all add: grid_point_def Math_round2_exact)

lemma store_row_in_bounds:
  assumes "unit_draws rnd" and "store_row (grid_point rnd clock la lo i j k t) = Some r"
  shows "point_in_bounds r"
  using grid_point_in_bounds[OF assms(1), of clock la lo i j k t]
    store_row_grid_point[OF assms(2)] store_row_fields(7)[OF assms(2)]
  by (simp add: point_in_bounds_def)

lemma those_map_nth:
  "those (map f xs) = Some ys \<Longrightarrow>
     length ys = length xs \<and> (\<forall>i<length xs. f (xs ! i) = Some (ys ! i))"
proof (induction xs arbitrary: ys)
  case Nil
  then show ?case by simp
next
  case (Cons x xs)
  from Cons.prems obtain y zs where y: "f x = Some y" and zs: "those (map f xs) = Some zs"
    and ys: "ys = y # zs"
    by (auto split: option.splits)
  from Cons.IH[OF zs] have l: "length zs = length xs"
    and n: "\<forall>i<length xs. f (xs ! i) = Some (zs ! i)"
    by simp_all
  show ?case
  proof (intro conjI allI impI)
    show "length ys = length (x # xs)"
      using l ys by simp
  next
    fix i assume "i < length (x # xs)"
    then show "f ((x # xs) ! i) = Some (ys ! i)"
      using y n ys by (cases i) simp_all
  qed
qed

lemma those_map_defined:
  "(\<forall>x\<in>set xs. f x \<noteq> None) \<Longrightarrow> those (map f xs) \<noteq> None"
  by (induction xs) (auto split: option.splits)

lemma pg_insert_stored:
  assumes "pg_insert tbl rows = (None, tbl')"
  shows "\<exists>stored. tbl' = tbl @ stored \<and> length stored = length rows \<and>
           (\<forall>i<length rows. store_row (rows ! i) = Some (stored ! i))"
proof -
  from assms obtain stored where s: "those (map store_row rows) = Some stored"
    and t: "tbl' = tbl @ stored"
    by (auto simp add: pg_insert_def split: option.splits)
  from those_map_nth[OF s] t show ?thesis
    by blast
qed

lemma pg_insert_failed: "pg_insert tbl rows = (Some e, tbl') \<Longrightarrow> tbl' = tbl"
  by (auto simp add: pg_insert_def split: option.splits)

lemma pg_insert_generated_in_bounds:
  assumes u: "unit_draws rnd"
    and inv: "\<forall>r\<in>set tbl. point_in_bounds r"
  shows "\<forall>r\<in>set (snd (pg_insert tbl (fst (fetchSatelliteData rnd clock la lo token k t)))).
           point_in_bounds r"
proof (cases "fst (pg_insert tbl (fst (fetchSatelliteData rnd clock la lo token k t)))")
  case (Some e)
  then have "pg_insert tbl (fst (fetchSatelliteData rnd clock la lo token k t))
       = (Some e, snd (pg_insert tbl (fst (fetchSatelliteData rnd clock la lo token k t))))"
    by (metis prod.collapse)
  from pg_insert_failed[OF this] inv show ?thesis
    by simp
next
  case None
  let ?pts = "fst (fetchSatelliteData rnd clock la lo token k t)"
  from None have "pg_insert tbl ?pts = (None, snd (pg_insert tbl ?pts))"
    by (metis prod.collapse)
  from pg_insert_stored[OF this] obtain stored where
    t: "snd (pg_insert tbl ?pts) = tbl @ stored"
    and l: "length stored = length ?pts"
    and s: "\<forall>i<length ?pts. store_row (?pts ! i) = Some (stored ! i)"
    by blast
  have "point_in_bounds r" if "r \<in> set stored" for r
  proof -
    from that obtain n where n: "n < length stored" and r: "r = stored ! n"
      by (auto simp add: in_set_conv_nth)
    with l have n49: "n < 49"
      by (simp add: length_fetchSatelliteData)
    from s n l r have "store_row (?pts ! n) = Some r"
      by simp
    then have "store_row (grid_point rnd clock la lo (n div 7) (n mod 7) (k + 5 * n) (t + n)) = Some r"
      by (simp add: nth_fetchSatelliteData[OF n49])
    from store_row_in_bounds[OF u this] show ?thesis .
  qed
  with inv t show ?thesis
    by auto
qed

lemma DECIMAL_defined:
  "\<bar>x\<bar> + 1 / (2 * 10 ^ s) < 10 ^ (p - s) \<Longrightarrow> DECIMAL p s x = Some (numeric_round s x)"
  using numeric_round_error[of s x] by (simp add: DECIMAL_def)

lemma DECIMAL2_exact:
  "\<bar>Math_round y / 100\<bar> < 10 ^ (p - 2) \<Longrightarrow>
     DECIMAL p 2 (Math_round y / 100) = Some (Math_round y / 100)"
  by (simp add: DECIMAL_def Math_round2_exact)

lemma lattice_coordinate_range:
  assumes "i < 7"
  shows "\<bar>c - radius + real i * step\<bar> \<le> \<bar>c\<bar> + 0.045"
proof -
  have "real i \<le> 6" using assms by simp
  then have "0 \<le> real i * step" "real i * step \<le> 0.09"
    by (simp_all add: step_def radius_def gridSize_def)
  then show ?thesis
    by (simp add: radius_def abs_le_iff) linarith
qed

lemma store_row_grid_point_defined:
  assumes u: "unit_draws rnd" and la: "\<bar>la\<bar> \<le> 99" and lo: "\<bar>lo\<bar> \<le> 999"
    and i: "i < 7" and j: "j < 7"
  shows "store_row (grid_point rnd clock la lo i j k t) =
     Some ((grid_point rnd clock la lo i j k t)
             \<lparr> latitude := numeric_round 8 (la - radius + real i * step),
               longitude := numeric_round 8 (lo - radius + real j * step) \<rparr>)"
proof -
  let ?p = "grid_point rnd clock la lo i j k t"
  have b: "point_in_bounds ?p"
    by (rule grid_point_in_bounds[OF u])
  have dla: "DECIMAL 10 8 (latitude ?p) = Some (numeric_round 8 (la - radius + real i * step))"
    using lattice_coordinate_range[OF i, of la] la
    by (simp add: grid_point_def DECIMAL_defined)
  have dlo: "DECIMAL 11 8 (longitude ?p) = Some (numeric_round 8 (lo - radius + real j * step))"
    using lattice_coordinate_range[OF j, of lo] lo
    by (simp add: grid_point_def DECIMAL_defined)
  have c: "DECIMAL 5 2 (cloud_coverage ?p) = Some (cloud_coverage ?p)"
    and v: "DECIMAL 5 2 (vegetation_index ?p) = Some (vegetation_index ?p)"
    and w: "DECIMAL 5 2 (water_index ?p) = Some (water_index ?p)"
    and tp: "DECIMAL 6 2 (temperature ?p) = Some (temperature ?p)"
    using b unfolding point_in_bounds_def
    by (simp_all add: grid_point_def DECIMAL2_exact abs_less_iff)
  show ?thesis
    unfolding store_row_def dla dlo c v w tp
    by (simp add: grid_point_def)
qed

lemma pg_insert_generated_ok:
  assumes "unit_draws rnd" and "\<bar>la\<bar> \<le> 99" and "\<bar>lo\<bar> \<le> 999"
  shows "fst (pg_insert tbl (fst (fetchSatelliteData rnd clock la lo token k t))) = None"
proof -
  have "\<forall>p\<in>set (fst (fetchSatelliteData rnd clock la lo token k t)). store_row p \<noteq> None"
  proof
    fix p assume "p \<in> set (fst (fetchSatelliteData rnd clock la lo token k t))"
    then obtain n where n: "n < 49"
      and p: "p = grid_point rnd clock la lo (n div 7) (n mod 7) (k + 5 * n) (t + n)"
      by (auto simp add: in_set_fetchSatelliteData)
    from n have "n div 7 < 7" "n mod 7 < 7" by simp_all
    from store_row_grid_point_defined[OF assms this] p show "store_row p \<noteq> None"
      by simp
  qed
  from those_map_defined[OF this] show ?thesis
    by (auto simp add: pg_insert_def split: option.splits)
qed

section \<open>Bounds of the generated and the persisted values\<close>

lemma process_locations_in_bounds:
  assumes u: "unit_draws (Math_random pf)" and pg: "db_insert pf = pg_insert"
  shows "(\<forall>r\<in>set (db w). point_in_bounds r) \<Longrightarrow>
         (\<forall>r\<in>set (db (snd (process_locations pf token locs (tot, w)))). point_in_bounds r)"
proof (induction locs arbitrary: tot w)
  case Nil
  then show ?case by simp
next
  case (Cons l rest)
  let ?f = "fetchSatelliteData (Math_random pf) (Date_toISOString pf) (lat l) (lng l) token
              (draws w) (ticks w)"
  let ?i = "pg_insert (db w) (fst ?f)"
  have inv: "\<forall>r\<in>set (snd ?i). point_in_bounds r"
    by (rule pg_insert_generated_in_bounds[OF u Cons.prems])
  show ?case
  proof (cases "fst ?i")
    case None
    let ?w = "w\<lparr> draws := fst (snd ?f), ticks := snd (snd ?f), db := snd ?i,
                  console := console w @ [Inserted (length (fst ?f)) l] \<rparr>"
    have step: "process_locations pf token (l # rest) (tot, w)
              = process_locations pf token rest (tot + length (fst ?f), ?w)"
      using None by (simp add: split_beta Let_def pg)
    have "\<forall>r\<in>set (db ?w). point_in_bounds r"
      using inv by simp
    from Cons.IH[OF this] show ?thesis
      unfolding step .
  next
    case (Some e)
    let ?w = "w\<lparr> draws := fst (snd ?f), ticks := snd (snd ?f), db := snd ?i,
                  console := console w @ [InsertFailed l e] \<rparr>"
    have step: "process_locations pf token (l # rest) (tot, w)
              = process_locations pf token rest (tot, ?w)"
      using Some by (simp add: split_beta Let_def pg)
    have "\<forall>r\<in>set (db ?w). point_in_bounds r"
      using inv by simp
    from Cons.IH[OF this] show ?thesis
      unfolding step .
  qed
qed

lemma ingest_handler_db:
  "db (snd (ingest_handler pf req w)) = db w \<or>
   db (snd (ingest_handler pf req w))
     = db (snd (process_locations pf getCopernicusToken (locationsToProcess b) (0, w))) \<and>
   req_json req = Inr b"
  if "req_json req = Inr b \<or> (\<exists>e. req_json req = Inl e)"
  using that
  by (auto simp add: ingest_handler_def ingest_try_def split_beta Let_def
      split: sum.splits option.splits)

text \<open>
  C2. Whatever the draws in \<open>[0, 1)\<close> are, every generated point has
  \<open>cloud_coverage\<close> in \<open>[0, 30]\<close>, \<open>vegetation_index\<close> in \<open>[0.2, 0.8]\<close>,
  \<open>water_index\<close> in \<open>[-0.3, 0.2]\<close>, \<open>temperature\<close> in \<open>[15, 30]\<close> and each
  risk indicator in \<open>[0, 100]\<close>; and a run of the ingestion handler on the table
  \<open>satellite_data\<close> keeps the table within these bounds.
\<close>

theorem generated_points_in_bounds:
  assumes "unit_draws (Math_random pf)"
  shows "(\<forall>p\<in>set (fst (fetchSatelliteData (Math_random pf) clock la lo token k t)).
            point_in_bounds p) \<and>
         (db_insert pf = pg_insert \<and> (\<forall>r\<in>set (db w). point_in_bounds r) \<longrightarrow>
            (\<forall>r\<in>set (db (snd (ingest_handler pf req w))). point_in_bounds r))"
proof (intro conjI impI)
  show "\<forall>p\<in>set (fst (fetchSatelliteData (Math_random pf) clock la lo token k t)). point_in_bounds p"
    using grid_point_in_bounds[OF assms]
    by (auto simp add: in_set_fetchSatelliteData)
next
  assume a: "db_insert pf = pg_insert \<and> (\<forall>r\<in>set (db w). point_in_bounds r)"
  then have pg: "db_insert pf = pg_insert" and inv: "\<forall>r\<in>set (db w). point_in_bounds r"
    by simp_all
  show "\<forall>r\<in>set (db (snd (ingest_handler pf req w))). point_in_bounds r"
  proof (cases "req_json req")
    case (Inl e)
    then have "db (snd (ingest_handler pf req w)) = db w"
      by (simp add: ingest_handler_def ingest_try_def)
    with inv show ?thesis by simp
  next
    case (Inr b)
    from ingest_handler_db[of req b pf w] Inr
    consider "db (snd (ingest_handler pf req w)) = db w"
      | "db (snd (ingest_handler pf req w))
           = db (snd (process_locations pf getCopernicusToken (locationsToProcess b) (0, w)))"
      by blast
    then show ?thesis
    proof cases
      case 1
      with inv show ?thesis by simp
    next
      case 2
      from process_locations_in_bounds[OF assms pg inv, of getCopernicusToken "locationsToProcess b" 0]
      show ?thesis
        unfolding 2 .
    qed
  qed
qed


lemma ingest_single_location_db:
  assumes "req_method req \<noteq> ''OPTIONS''" and "req_json req = Inr b"
    and "createClient pf (env pf ''SUPABASE_URL'') (env pf ''SUPABASE_SERVICE_ROLE_KEY'') = None"
    and "locationsToProcess b = [l]"
  shows "db (snd (ingest_handler pf req w))
     = snd (db_insert pf (db w)
         (fst (fetchSatelliteData (Math_random pf) (Date_toISOString pf) (lat l) (lng l)
                 getCopernicusToken (draws w) (ticks w))))"
  using assms
  by (simp add: ingest_handler_def ingest_try_def split_beta Let_def split: option.splits)

theorem generated_points_in_bounds_witness:
  "unit_draws (Math_random table_platform) \<and>
   db_insert table_platform = pg_insert \<and>
   list_all point_in_bounds (db empty_table_world) \<and>
   list_all point_in_bounds (db (snd (ingest_handler table_platform manual_request empty_table_world))) \<and>
   length (db (snd (ingest_handler table_platform manual_request empty_table_world))) = 49 \<and>
   list_all point_in_bounds
     (fst (fetchSatelliteData (Math_random table_platform) (\<lambda>n. ''2025-11-09T12:56:01.000Z'')
             40.7128 (- 74.0060) ''demo-mode'' 0 0))"
proof -
  let ?b = "\<lparr> body_trigger = Some (JStr ''manual''), body_source = Some (JStr ''api''),
             body_latitude = Some 40.7128, body_longitude = Some (- 74.0060),
             body_locations = None \<rparr>"
  let ?pts = "fst (fetchSatelliteData (\<lambda>n. 1 / 2) (\<lambda>n. ''2025-11-09T12:56:01.000Z'')
                     40.7128 (- 74.0060) getCopernicusToken 0 0)"
  have h1: "unit_draws (Math_random table_platform)"
    by (simp add: table_platform_def unit_draws_def)
  have h2: "db_insert table_platform = pg_insert"
    by (simp add: table_platform_def)
  have h3: "\<forall>r\<in>set (db empty_table_world). point_in_bounds r"
    by (simp add: empty_table_world_def)
  note th = generated_points_in_bounds[OF h1, of "\<lambda>n. ''2025-11-09T12:56:01.000Z''"
      "40.7128" "- 74.0060" "''demo-mode''" 0 0 empty_table_world manual_request]
  from th[THEN conjunct1]
  have g: "list_all point_in_bounds
     (fst (fetchSatelliteData (Math_random table_platform) (\<lambda>n. ''2025-11-09T12:56:01.000Z'')
             40.7128 (- 74.0060) ''demo-mode'' 0 0))"
    by (simp add: list_all_iff)
  from th[THEN conjunct2, rule_format, OF conjI[OF h2 h3]]
  have p: "list_all point_in_bounds
     (db (snd (ingest_handler table_platform manual_request empty_table_world)))"
    by (simp add: list_all_iff)
  have d: "db (snd (ingest_handler table_platform manual_request empty_table_world))
         = snd (pg_insert [] ?pts)"
    by (subst ingest_single_location_db[of manual_request ?b table_platform
          "\<lparr> lat = 40.7128, lng = - 74.0060 \<rparr>"])
       (simp_all add: manual_request_def table_platform_def empty_table_world_def
          locationsToProcess_def truthy_num_def)
  have ok: "fst (pg_insert [] ?pts) = None"
    by (rule pg_insert_generated_ok) (simp_all add: unit_draws_def)
  then have "pg_insert [] ?pts = (None, snd (pg_insert [] ?pts))"
    by (metis prod.collapse)
  from pg_insert_stored[OF this] have "length (snd (pg_insert [] ?pts)) = 49"
    by (auto simp add: length_fetchSatelliteData)
  with d have len: "length (db (snd (ingest_handler table_platform manual_request empty_table_world))) = 49"
    by simp
  from h1 h2 h3 g p len show ?thesis
    by (simp add: list_all_iff)
qed

section \<open>Reading the rows back\<close>














end
